theory Spec2Isabelle
  imports Main
begin

section \<open>Data model (models.js)\<close>

text \<open>
  Documents are records. Identifiers (\<open>_id\<close>, an ObjectId) are natural numbers. A
  \<open>String\<close> path that \<open>required\<close> rejects when it is absent is rejected when it is empty
  as well, so an absent string is the empty one; a character of a string stands for one
  code unit of the source's string.

  The source's \<open>Number\<close> is an IEEE double. Prices and amounts are values of a type \<open>'n\<close>
  of Numbers whose zero, addition, multiplication, test \<open>0 \<le> x\<close> and \<open>toString\<close> are the
  fields of a record the handlers take as a parameter: nothing is assumed of them, so
  what is proved for every such record holds of the doubles. Stock counts and requested
  quantities are integers; \<open>num_of_int\<close> is the Number a quantity is when it is multiplied
  with a price.
\<close>

record 'n arith =
  num_zero :: 'n
  num_add :: "'n \<Rightarrow> 'n \<Rightarrow> 'n"
  num_mul :: "'n \<Rightarrow> 'n \<Rightarrow> 'n"
  num_of_int :: "int \<Rightarrow> 'n"
  num_nonneg :: "'n \<Rightarrow> bool"
  num_toString :: "'n \<Rightarrow> string"

record 'n product =
  p_name :: string
  descriptionShort :: string
  descriptionFull :: string
  price :: 'n
  images :: "(string \<times> string) list"
  stock :: int
  olfactoryNotes :: string
  p_size :: string
  p_type :: string
  featured :: bool

definition productTypeEnum :: "string list" where
  "productTypeEnum = [''Masculino'', ''Feminino'', ''Unissex'']"

text \<open>
  The validators of \<open>ProductSchema\<close>, which \<open>save\<close> runs on every path of a loaded
  document: the required strings, \<open>maxLength\<close> 150 of the short description, \<open>min\<close> 0 of
  the price, both strings of every image (\<open>public_id\<close> and \<open>url\<close>), and the enum of the
  type. \<open>stock\<close> is a number, so its \<open>required\<close> holds.
\<close>

definition validateProduct :: "'n arith \<Rightarrow> 'n product \<Rightarrow> bool" where
  "validateProduct ar prd =
     (p_name prd \<noteq> [] \<and>
      descriptionShort prd \<noteq> [] \<and> length (descriptionShort prd) \<le> 150 \<and>
      descriptionFull prd \<noteq> [] \<and>
      num_nonneg ar (price prd) \<and>
      list_all (\<lambda>img. fst img \<noteq> [] \<and> snd img \<noteq> []) (images prd) \<and>
      p_size prd \<noteq> [] \<and>
      p_type prd \<in> set productTypeEnum)"

record customerInfo =
  ci_name :: string
  ci_phone :: string
  ci_address :: string

text \<open>An element of \<open>OrderSchema.products\<close>: product reference, quantity, price at purchase.\<close>

record 'n lineItem =
  li_product :: nat
  li_quantity :: int
  li_price :: 'n

record mpesaDetails =
  transactionReference :: "string option"
  thirdPartyReference :: "string option"
  conversationID :: "string option"
  responseCode :: "string option"
  responseDescription :: "string option"

record 'n order =
  oid :: nat
  customerInfo :: customerInfo
  products :: "'n lineItem list"
  totalAmount :: 'n
  paymentMethod :: string
  paymentStatus :: string
  orderStatus :: string
  mpesaDetails :: mpesaDetails
  trackingId :: string

definition paymentMethodEnum :: "string list" where
  "paymentMethodEnum = [''Mpesa'', ''Emola'', ''Cartao'', ''Entrega'']"

definition paymentStatusEnum :: "string list" where
  "paymentStatusEnum = [''pending'', ''paid'', ''failed'']"

definition orderStatusEnum :: "string list" where
  "orderStatusEnum = [''processing'', ''shipped'', ''delivered'', ''cancelled'']"

text \<open>
  The validators of \<open>OrderSchema\<close> that can fail on a document built by \<open>createOrder\<close>:
  the required strings of \<open>customerInfo\<close> and the three enums. The line items and
  \<open>totalAmount\<close> are numbers the controller computed, so their \<open>required\<close> holds.
\<close>

definition validateOrder :: "'n order \<Rightarrow> bool" where
  "validateOrder ord =
     (ci_name (customerInfo ord) \<noteq> [] \<and>
      ci_phone (customerInfo ord) \<noteq> [] \<and>
      ci_address (customerInfo ord) \<noteq> [] \<and>
      paymentMethod ord \<in> set paymentMethodEnum \<and>
      paymentStatus ord \<in> set paymentStatusEnum \<and>
      orderStatus ord \<in> set orderStatusEnum)"

text \<open>The two collections the checkout and the callback write.\<close>

record 'n store =
  productsDb :: "nat \<rightharpoonup> 'n product"
  ordersDb :: "'n order list"

section \<open>Requests, responses, errors and effects (controllers.js)\<close>

record cartItem =
  productId :: nat
  quantity :: int

text \<open>\<open>req.body\<close> of the checkout; a field the client left out is \<open>None\<close>.\<close>

record checkoutBody =
  req_customerInfo :: "customerInfo option"
  req_products :: "cartItem list option"
  req_paymentMethod :: "string option"

record callbackBody =
  input_ThirdPartyReference :: "string option"
  input_ResultCode :: "string option"
  input_ResultDesc :: "string option"

record mpesaPayload =
  input_TransactionReference :: string
  input_CustomerMSISDN :: string
  input_Amount :: string
  payload_ThirdPartyReference :: string
  input_ServiceProviderCode :: string

text \<open>\<open>mpesaResponse.data\<close>, and \<open>error.response\<close> of a request the provider refused.\<close>

record mpesaAck =
  output_ConversationID :: "string option"
  output_ResponseCode :: "string option"
  output_ResponseDesc :: "string option"

record providerErrorData =
  err_status :: nat
  err_ResponseDesc :: "string option"
  err_error :: "string option"

text \<open>One constructor for each \<open>throw\<close> the checkout can reach.\<close>

datatype error =
    ProductNotFound nat
  | InsufficientStock string
  | ProductValidationFailed nat
  | ValidationFailed
  | DuplicateKey nat
  | InvalidPhoneNumber string
  | ProviderRefused providerErrorData
  | ProviderUnreachable
  | ReferenceError string

text \<open>
  The JSON bodies the controllers send, by meaning; the message texts are Portuguese
  constants of the source and carry no data beyond what the constructor holds.
\<close>

datatype 'n body =
    NoBody
  | IncompleteOrderData
  | OrderCreated nat string "mpesaAck option"
  | MpesaTransactionFailed string providerErrorData
  | CreateOrderError error
  | MissingThirdPartyReference
  | CallbackProcessed
  | OrderNotFound
  | UpdateStatusError error
  | OrderJson "'n order"

text \<open>
  \<open>Response status body\<close> is \<open>res.status(status)\<close> followed by \<open>json\<close> or \<open>send\<close>.
  \<open>PostCommitFailure e\<close> is an exception raised in the \<open>try\<close> block after
  \<open>commitTransaction\<close>: the \<open>catch\<close> block then calls \<open>abortTransaction\<close> on a session
  whose transaction is already committed, which undoes nothing (the driver raises on
  it, so the handler ends without the 201 response).
\<close>

datatype 'n response =
    Response nat "'n body"
  | PostCommitFailure error

datatype 'n notification =
    OrderCreatedMsg string string 'n
  | PaymentConfirmedMsg string
  | PaymentFailedMsg string "string option"
  | StatusChangedMsg string string

datatype 'n effect =
    ProviderRequest mpesaPayload
  | WhatsApp string "'n notification"

text \<open>
  What a handler reads from outside the request: the WhatsApp client, the clock, the
  identifiers Mongoose generates for a new order, the configuration and the provider.
\<close>

record env =
  sock :: bool
  now :: nat
  newOrderId :: nat
  newTrackingId :: string
  serviceProviderCode :: string
  provider :: "mpesaPayload \<Rightarrow> error + mpesaAck"

section \<open>Helpers\<close>

definition isDigit :: "char \<Rightarrow> bool" where
  "isDigit c = (c \<in> set ''0123456789'')"

definition startsWith :: "string \<Rightarrow> string \<Rightarrow> bool" where
  "startsWith s p = (take (length p) s = p)"

definition digitChar :: "nat \<Rightarrow> char" where
  "digitChar d = ''0123456789'' ! d"

text \<open>Decimal rendering of a natural number, as the template literal gives \<open>Date.now()\<close>.\<close>

function decimal :: "nat \<Rightarrow> string" where
  "decimal n = (if n < 10 then [digitChar n] else decimal (n div 10) @ [digitChar (n mod 10)])"
  by pat_completeness auto
termination
  by (relation "measure id") auto

declare decimal.simps [simp del]

text \<open>\<open>normalizeMpesaNumber\<close>: the final \<open>throw\<close> is the error value.\<close>

definition normalizeMpesaNumber :: "string \<Rightarrow> error + string" where
  "normalizeMpesaNumber phone =
     (let cleanPhone0 = filter isDigit phone;
          cleanPhone = (if startsWith cleanPhone0 ''0'' then drop 1 cleanPhone0 else cleanPhone0)
      in if length cleanPhone = 9 \<and> (startsWith cleanPhone ''84'' \<or> startsWith cleanPhone ''85'')
         then Inr (''258'' @ cleanPhone)
         else if length cleanPhone = 12 \<and> startsWith cleanPhone ''258''
         then Inr cleanPhone
         else Inl (InvalidPhoneNumber phone))"

text \<open>
  \<open>sendWhatsAppMessage\<close>: nothing is sent without a client, and a failure to send is
  caught and logged, so the caller never sees one.
\<close>

definition sendWhatsAppMessage :: "bool \<Rightarrow> string \<Rightarrow> 'n notification \<Rightarrow> 'n effect list" where
  "sendWhatsAppMessage sk to message =
     (if \<not> sk then [] else [WhatsApp (filter isDigit to @ ''@s.whatsapp.net'') message])"

section \<open>Checkout (createOrder)\<close>

text \<open>
  The \<open>for\<close> loop over the cart, inside the session: each line reads the product as
  the earlier lines of the same transaction left it, accumulates \<open>totalAmount\<close> and
  \<open>productDetails\<close> in the Number arithmetic, and saves the product with the decremented
  stock; \<open>product.save\<close> validates the document and throws when a validator rejects it.
\<close>

fun reserveItems ::
  "'n arith \<Rightarrow> cartItem list \<Rightarrow> (nat \<rightharpoonup> 'n product) \<Rightarrow> 'n \<Rightarrow> 'n lineItem list
     \<Rightarrow> error + ((nat \<rightharpoonup> 'n product) \<times> 'n \<times> 'n lineItem list)" where
  "reserveItems ar [] db tot details = Inr (db, tot, details)"
| "reserveItems ar (item # items) db tot details =
     (case db (productId item) of
        None \<Rightarrow> Inl (ProductNotFound (productId item))
      | Some prd \<Rightarrow>
          if stock prd < quantity item then Inl (InsufficientStock (p_name prd))
          else if \<not> validateProduct ar (prd\<lparr>stock := stock prd - quantity item\<rparr>)
          then Inl (ProductValidationFailed (productId item))
          else reserveItems ar items
                 (db(productId item \<mapsto> prd\<lparr>stock := stock prd - quantity item\<rparr>))
                 (num_add ar tot (num_mul ar (price prd) (num_of_int ar (quantity item))))
                 (details @ [\<lparr>li_product = productId item, li_quantity = quantity item,
                              li_price = price prd\<rparr>]))"

text \<open>\<open>save\<close> of a new document inserts it; \<open>save\<close> of a stored one updates it by \<open>_id\<close>.\<close>

definition insertOrder :: "'n order \<Rightarrow> 'n order list \<Rightarrow> error + 'n order list" where
  "insertOrder ord os =
     (if oid ord \<in> set (map oid os) then Inl (DuplicateKey (oid ord)) else Inr (os @ [ord]))"

definition updateOrder :: "'n order \<Rightarrow> 'n order list \<Rightarrow> 'n order list" where
  "updateOrder ord os = map (\<lambda>x. if oid x = oid ord then ord else x) os"

definition newOrder :: "env \<Rightarrow> customerInfo \<Rightarrow> 'n lineItem list \<Rightarrow> 'n \<Rightarrow> string \<Rightarrow> string \<Rightarrow> 'n order" where
  "newOrder e ci details tot pm ref =
     \<lparr>oid = newOrderId e, customerInfo = ci, products = details, totalAmount = tot,
      paymentMethod = pm, paymentStatus = ''pending'', orderStatus = ''processing'',
      mpesaDetails = \<lparr>transactionReference = None, thirdPartyReference = Some ref,
                      conversationID = None, responseCode = None, responseDescription = None\<rparr>,
      trackingId = newTrackingId e\<rparr>"

text \<open>
  The payment branch, still inside the transaction: \<open>Mpesa\<close> goes to the provider,
  every other method is simulated.
\<close>

definition payOrder ::
  "'n arith \<Rightarrow> env \<Rightarrow> customerInfo \<Rightarrow> string \<Rightarrow> string \<Rightarrow> 'n order
     \<Rightarrow> 'n effect list \<times> (error + 'n order)" where
  "payOrder ar e ci pm ref ord =
     (if pm = ''Mpesa'' then
        (case normalizeMpesaNumber (ci_phone ci) of
           Inl err \<Rightarrow> ([], Inl err)
         | Inr mpesaPhoneNumber \<Rightarrow>
             let mpesaPayload =
                   \<lparr>input_TransactionReference = ref,
                    input_CustomerMSISDN = mpesaPhoneNumber,
                    input_Amount = num_toString ar (totalAmount ord),
                    payload_ThirdPartyReference = ref,
                    input_ServiceProviderCode = serviceProviderCode e\<rparr>
             in (case provider e mpesaPayload of
                   Inl err \<Rightarrow> ([ProviderRequest mpesaPayload], Inl err)
                 | Inr ack \<Rightarrow>
                     ([ProviderRequest mpesaPayload],
                      Inr (ord\<lparr>mpesaDetails := (mpesaDetails ord)
                             \<lparr>conversationID := output_ConversationID ack,
                              responseCode := output_ResponseCode ack,
                              responseDescription := output_ResponseDesc ack\<rparr>\<rparr>))))
      else ([], Inr (ord\<lparr>paymentStatus := (if pm = ''Entrega'' then ''pending'' else ''paid'')\<rparr>)))"

text \<open>
  The body of the \<open>try\<close> block from the loop to the last \<open>save\<close>: the writes go to the
  session's copy of the store, which the second component returns when nothing threw.
\<close>

definition runTransaction ::
  "'n arith \<Rightarrow> env \<Rightarrow> customerInfo \<Rightarrow> cartItem list \<Rightarrow> string \<Rightarrow> 'n store
     \<Rightarrow> 'n effect list \<times> (error + ('n store \<times> 'n order))" where
  "runTransaction ar e ci items pm st =
     (case reserveItems ar items (productsDb st) (num_zero ar) [] of
        Inl err \<Rightarrow> ([], Inl err)
      | Inr (db, tot, details) \<Rightarrow>
          let thirdPartyRef = ''PERFUME_'' @ decimal (now e);
              ord = newOrder e ci details tot pm thirdPartyRef
          in if \<not> validateOrder ord then ([], Inl ValidationFailed)
             else (case insertOrder ord (ordersDb st) of
                     Inl err \<Rightarrow> ([], Inl err)
                   | Inr os \<Rightarrow>
                       (case payOrder ar e ci pm thirdPartyRef ord of
                          (effs, Inl err) \<Rightarrow> (effs, Inl err)
                        | (effs, Inr ord') \<Rightarrow>
                            (effs, Inr (\<lparr>productsDb = db, ordersDb = updateOrder ord' os\<rparr>, ord')))))"

text \<open>
  The \<open>catch\<close> block's response, after \<open>abortTransaction\<close>: the provider's description
  of a refused request when there is a non-empty one, else its \<open>output_error\<close>, else the
  source's generic message (written here without its diacritics); \<open>orElse\<close> is \<open>||\<close> on
  strings that may be absent.
\<close>

definition orElse :: "string option \<Rightarrow> string \<Rightarrow> string" where
  "orElse a b = (case a of None \<Rightarrow> b | Some m \<Rightarrow> if m = [] then b else m)"

definition errorResponse :: "error \<Rightarrow> 'n response" where
  "errorResponse err =
     (case err of
        ProviderRefused d \<Rightarrow>
          Response 500 (MpesaTransactionFailed
            (orElse (err_ResponseDesc d)
               (orElse (err_error d) ''Erro de comunicacao com o servico de pagamento.''))
            d)
      | _ \<Rightarrow> Response 500 (CreateOrderError err))"

text \<open>
  \<open>createOrder\<close>. A missing or empty field is answered 400 before anything is read
  (an empty array is truthy, an empty string is not). An error of the transaction is
  caught: the session is aborted, so the store of the request is returned. After the
  commit the notification is sent and the 201 body is built; its \<open>mpesaResponse\<close> field
  reads \<open>mpesaResponse.data\<close> when the method is \<open>Mpesa\<close>, outside the block that
  declares the constant \<open>mpesaResponse\<close>, which raises a ReferenceError.
\<close>

definition createOrder ::
  "'n arith \<Rightarrow> env \<Rightarrow> checkoutBody \<Rightarrow> 'n store \<Rightarrow> 'n response \<times> 'n store \<times> 'n effect list" where
  "createOrder ar e b st =
     (case req_customerInfo b of
        None \<Rightarrow> (Response 400 IncompleteOrderData, st, [])
      | Some ci \<Rightarrow>
     (case req_products b of
        None \<Rightarrow> (Response 400 IncompleteOrderData, st, [])
      | Some items \<Rightarrow>
     (case req_paymentMethod b of
        None \<Rightarrow> (Response 400 IncompleteOrderData, st, [])
      | Some pm \<Rightarrow>
          if pm = [] then (Response 400 IncompleteOrderData, st, [])
          else
            (case runTransaction ar e ci items pm st of
               (effs, Inl err) \<Rightarrow> (errorResponse err, st, effs)
             | (effs, Inr (st', ord)) \<Rightarrow>
                 let sent = effs @ sendWhatsAppMessage (sock e) (ci_phone ci)
                              (OrderCreatedMsg (ci_name ci) (trackingId ord) (totalAmount ord))
                 in if pm = ''Mpesa''
                    then (PostCommitFailure (ReferenceError ''mpesaResponse''), st', sent)
                    else (Response 201 (OrderCreated (oid ord) (trackingId ord) None), st', sent)))))"

section \<open>Payment callback (mpesaCallback)\<close>

definition findOneByReference :: "string \<Rightarrow> 'n order list \<Rightarrow> 'n order option" where
  "findOneByReference ref os = find (\<lambda>x. thirdPartyReference (mpesaDetails x) = Some ref) os"

text \<open>\<open>Product.updateOne({_id}, {$inc: {stock: q}})\<close>: no match, no change.\<close>

definition incStock :: "nat \<Rightarrow> int \<Rightarrow> (nat \<rightharpoonup> 'n product) \<Rightarrow> (nat \<rightharpoonup> 'n product)" where
  "incStock pid q db =
     (case db pid of None \<Rightarrow> db | Some prd \<Rightarrow> db(pid \<mapsto> prd\<lparr>stock := stock prd + q\<rparr>))"

fun restoreStock :: "'n lineItem list \<Rightarrow> (nat \<rightharpoonup> 'n product) \<Rightarrow> (nat \<rightharpoonup> 'n product)" where
  "restoreStock [] db = db"
| "restoreStock (item # items) db = restoreStock items (incStock (li_product item) (li_quantity item) db)"

text \<open>
  \<open>mpesaCallback\<close>. \<open>order.save()\<close> validates the whole document: a stored order was
  written by \<open>save\<close>, so it validates, and the paths the handler modifies take enum
  members and unconstrained strings; the \<open>catch\<close> block is not reached.
\<close>

definition mpesaCallback ::
  "bool \<Rightarrow> callbackBody \<Rightarrow> 'n store \<Rightarrow> 'n response \<times> 'n store \<times> 'n effect list" where
  "mpesaCallback sk b st =
     (case input_ThirdPartyReference b of
        None \<Rightarrow> (Response 400 MissingThirdPartyReference, st, [])
      | Some ref \<Rightarrow>
          if ref = [] then (Response 400 MissingThirdPartyReference, st, [])
          else
            (case findOneByReference ref (ordersDb st) of
               None \<Rightarrow> (Response 404 NoBody, st, [])
             | Some ord \<Rightarrow>
                 let ord1 = ord\<lparr>mpesaDetails := (mpesaDetails ord)
                                  \<lparr>responseCode := input_ResultCode b,
                                   responseDescription := input_ResultDesc b\<rparr>\<rparr>
                 in if input_ResultCode b = Some ''INS-0''
                    then
                      let ord2 = ord1\<lparr>paymentStatus := ''paid'', orderStatus := ''processing''\<rparr>
                      in (Response 200 CallbackProcessed,
                          st\<lparr>ordersDb := updateOrder ord2 (ordersDb st)\<rparr>,
                          sendWhatsAppMessage sk (ci_phone (customerInfo ord2))
                            (PaymentConfirmedMsg (trackingId ord2)))
                    else
                      let ord2 = ord1\<lparr>paymentStatus := ''failed'', orderStatus := ''cancelled''\<rparr>
                      in (Response 200 CallbackProcessed,
                          \<lparr>productsDb = restoreStock (products ord2) (productsDb st),
                           ordersDb = updateOrder ord2 (ordersDb st)\<rparr>,
                          sendWhatsAppMessage sk (ci_phone (customerInfo ord2))
                            (PaymentFailedMsg (trackingId ord2) (input_ResultDesc b)))))"

section \<open>Administrative status update (updateOrderStatus)\<close>

text \<open>
  A stored order was written by \<open>save\<close> and validates, so the enum of the new
  \<open>orderStatus\<close> is all that \<open>save\<close> can reject.
\<close>

definition updateOrderStatus ::
  "bool \<Rightarrow> nat \<Rightarrow> string \<Rightarrow> 'n store \<Rightarrow> 'n response \<times> 'n store \<times> 'n effect list" where
  "updateOrderStatus sk ident newStatus st =
     (case find (\<lambda>x. oid x = ident) (ordersDb st) of
        None \<Rightarrow> (Response 404 OrderNotFound, st, [])
      | Some ord \<Rightarrow>
          let ord' = ord\<lparr>orderStatus := newStatus\<rparr>
          in if newStatus \<notin> set orderStatusEnum
             then (Response 500 (UpdateStatusError ValidationFailed), st, [])
             else (Response 200 (OrderJson ord'),
                   st\<lparr>ordersDb := updateOrder ord' (ordersDb st)\<rparr>,
                   sendWhatsAppMessage sk (ci_phone (customerInfo ord'))
                     (StatusChangedMsg (trackingId ord') newStatus)))"

section \<open>Reading a handler's result\<close>

definition resultResponse :: "'n response \<times> 'n store \<times> 'n effect list \<Rightarrow> 'n response" where
  "resultResponse res = fst res"

definition resultStore :: "'n response \<times> 'n store \<times> 'n effect list \<Rightarrow> 'n store" where
  "resultStore res = fst (snd res)"

definition resultEffects :: "'n response \<times> 'n store \<times> 'n effect list \<Rightarrow> 'n effect list" where
  "resultEffects res = snd (snd res)"

definition statusOf :: "'n response \<Rightarrow> nat option" where
  "statusOf r = (case r of Response n _ \<Rightarrow> Some n | PostCommitFailure _ \<Rightarrow> None)"

text \<open>The transaction of the request was committed: the 201 answer, or a failure after the commit.\<close>

definition committed :: "'n response \<Rightarrow> bool" where
  "committed r = (case r of Response n _ \<Rightarrow> n = 201 | PostCommitFailure _ \<Rightarrow> True)"

definition stockOf :: "(nat \<rightharpoonup> 'n product) \<Rightarrow> nat \<Rightarrow> int" where
  "stockOf db pid = (case db pid of None \<Rightarrow> 0 | Some prd \<Rightarrow> stock prd)"

text \<open>
  The sum of a list of Numbers, added from 0 in the order of the list, and the amount of a
  line item: its price times its quantity.
\<close>

definition numSum :: "'n arith \<Rightarrow> 'n list \<Rightarrow> 'n" where
  "numSum ar xs = foldl (num_add ar) (num_zero ar) xs"

definition lineAmount :: "'n arith \<Rightarrow> 'n lineItem \<Rightarrow> 'n" where
  "lineAmount ar l = num_mul ar (li_price l) (num_of_int ar (li_quantity l))"

text \<open>The invariant of \<open>totalAmount\<close>: the sum of price times quantity over the line items.\<close>

definition totalConsistent :: "'n arith \<Rightarrow> 'n order \<Rightarrow> bool" where
  "totalConsistent ar ord = (totalAmount ord = numSum ar (map (lineAmount ar) (products ord)))"

text \<open>A line item is the snapshot of a cart line against a catalog.\<close>

definition snapshotOf :: "(nat \<rightharpoonup> 'n product) \<Rightarrow> 'n lineItem \<Rightarrow> cartItem \<Rightarrow> bool" where
  "snapshotOf db l it =
     (li_product l = productId it \<and> li_quantity l = quantity it \<and>
      map_option price (db (productId it)) = Some (li_price l))"

section \<open>The normalization rule in the words of the specification\<close>

text \<open>
  The specification's rule, phrased independently of the source: a digit is a character
  with code 48 to 57, and one leading zero is dropped.
\<close>

definition stripNonDigits :: "string \<Rightarrow> string" where
  "stripNonDigits s = filter (\<lambda>c. 48 \<le> (of_char c :: nat) \<and> (of_char c :: nat) \<le> 57) s"

definition dropLeadingZero :: "string \<Rightarrow> string" where
  "dropLeadingZero s = (case s of [] \<Rightarrow> [] | c # r \<Rightarrow> if c = CHR ''0'' then r else s)"

section \<open>The doubles that are integers\<close>

text \<open>
  A concrete arithmetic for the examples: the integer-valued doubles of magnitude below
  \<open>2 ^ 1024\<close>, as integers. A sum or product of two of them is the exact result rounded to
  the nearest double, ties to the even significand: \<open>roundNat\<close> keeps 53 significant bits.
  On integers of magnitude below \<open>2 ^ 53\<close> every operation is exact.
\<close>

fun bitLength :: "nat \<Rightarrow> nat" where
  "bitLength n = (if n = 0 then 0 else Suc (bitLength (n div 2)))"

declare bitLength.simps [simp del]

definition roundNat :: "nat \<Rightarrow> nat" where
  "roundNat n =
     (if n < 2 ^ 53 then n
      else let ulp = 2 ^ (bitLength n - 53); q = n div ulp; r = n mod ulp
           in if 2 * r < ulp then q * ulp
              else if ulp < 2 * r then (q + 1) * ulp
              else if even q then q * ulp else (q + 1) * ulp)"

definition roundDouble :: "int \<Rightarrow> int" where
  "roundDouble i = (if i < 0 then - int (roundNat (nat (- i))) else int (roundNat (nat i)))"

text \<open>
  \<open>Number.prototype.toString\<close> on such a double: the decimal with the fewest significant
  digits that reads back as the same double (the closest one, the even one on a tie),
  written out in full when it has at most 21 digits and in exponent notation otherwise.
  \<open>shortestFrom x j\<close> looks for that decimal among the multiples of \<open>10 ^ j\<close> next to \<open>x\<close>,
  then of \<open>10 ^ (j - 1)\<close>, and so on down to \<open>x\<close> itself.
\<close>

fun shortestFrom :: "nat \<Rightarrow> nat \<Rightarrow> nat" where
  "shortestFrom x 0 = x"
| "shortestFrom x (Suc j) =
     (let p = 10 ^ Suc j; lo = (x div p) * p; hi = lo + p
      in if roundNat lo = x \<and> roundNat hi = x then
            (if x - lo < hi - x then lo
             else if hi - x < x - lo then hi
             else if even (x div p) then lo else hi)
         else if roundNat lo = x then lo
         else if roundNat hi = x then hi
         else shortestFrom x j)"

definition positiveToString :: "nat \<Rightarrow> string" where
  "positiveToString x =
     (let ds = decimal (shortestFrom x (length (decimal x))); n = length ds
      in if n \<le> 21 then ds
         else let sig = rev (dropWhile (\<lambda>c. c = CHR ''0'') (rev ds))
              in (if length sig = 1 then sig else take 1 sig @ ''.'' @ drop 1 sig)
                 @ ''e+'' @ decimal (n - 1))"

definition numberToString :: "int \<Rightarrow> string" where
  "numberToString i =
     (if i = 0 then ''0''
      else if i < 0 then ''-'' @ positiveToString (nat (- i))
      else positiveToString (nat i))"

definition integerDoubles :: "int arith" where
  "integerDoubles =
     \<lparr>num_zero = 0,
      num_add = (\<lambda>a b. roundDouble (a + b)),
      num_mul = (\<lambda>a b. roundDouble (a * b)),
      num_of_int = roundDouble,
      num_nonneg = (\<lambda>a. 0 \<le> a),
      num_toString = numberToString\<rparr>"

section \<open>A concrete shop\<close>

definition exProduct :: "int product" where
  "exProduct =
     \<lparr>p_name = ''Oud'', descriptionShort = ''Oud wood'', descriptionFull = ''Oud wood, 100ml'',
      price = 100, images = [(''perfumes/oud'', ''https://res.example/oud.png'')], stock = 5,
      olfactoryNotes = ''wood'', p_size = ''100ml'', p_type = ''Unissex'', featured = False\<rparr>"

definition exStore :: "int store" where
  "exStore = \<lparr>productsDb = [1 \<mapsto> exProduct], ordersDb = []\<rparr>"

definition exCustomer :: customerInfo where
  "exCustomer = \<lparr>ci_name = ''Ana'', ci_phone = ''841234567'', ci_address = ''Maputo''\<rparr>"

definition exAck :: mpesaAck where
  "exAck = \<lparr>output_ConversationID = Some ''conv-1'', output_ResponseCode = Some ''INS-0'',
            output_ResponseDesc = Some ''Request processed successfully''\<rparr>"

definition exEnv :: env where
  "exEnv = \<lparr>sock = True, now = 1700000000000, newOrderId = 1, newTrackingId = ''trk1'',
            serviceProviderCode = ''171717'', provider = (\<lambda>_. Inr exAck)\<rparr>"

definition exCart :: "cartItem list" where
  "exCart = [\<lparr>productId = 1, quantity = 2\<rparr>]"

definition exCheckout :: "string \<Rightarrow> checkoutBody" where
  "exCheckout pm =
     \<lparr>req_customerInfo = Some exCustomer, req_products = Some exCart, req_paymentMethod = Some pm\<rparr>"

text \<open>The order a checkout by \<open>Mpesa\<close> leaves in the store, and that store.\<close>

definition exOrder :: "int order" where
  "exOrder =
     \<lparr>oid = 1, customerInfo = exCustomer,
      products = [\<lparr>li_product = 1, li_quantity = 2, li_price = 100\<rparr>],
      totalAmount = 200, paymentMethod = ''Mpesa'', paymentStatus = ''pending'',
      orderStatus = ''processing'',
      mpesaDetails = \<lparr>transactionReference = None,
                      thirdPartyReference = Some ''PERFUME_1700000000000'',
                      conversationID = Some ''conv-1'', responseCode = Some ''INS-0'',
                      responseDescription = Some ''Request processed successfully''\<rparr>,
      trackingId = ''trk1''\<rparr>"

definition exPending :: "int store" where
  "exPending = \<lparr>productsDb = [1 \<mapsto> exProduct\<lparr>stock := 3\<rparr>], ordersDb = [exOrder]\<rparr>"

definition exCallback :: "string \<Rightarrow> callbackBody" where
  "exCallback code =
     \<lparr>input_ThirdPartyReference = Some ''PERFUME_1700000000000'',
      input_ResultCode = Some code, input_ResultDesc = Some ''result''\<rparr>"

section \<open>Named pieces of the handlers\<close>

text \<open>The order as the failure branch and the success branch of \<open>mpesaCallback\<close> leave it.\<close>

definition failedOrder :: "callbackBody \<Rightarrow> 'n order \<Rightarrow> 'n order" where
  "failedOrder b ord =
     ord\<lparr>mpesaDetails := (mpesaDetails ord)
            \<lparr>responseCode := input_ResultCode b, responseDescription := input_ResultDesc b\<rparr>,
         paymentStatus := ''failed'', orderStatus := ''cancelled''\<rparr>"

definition paidOrder :: "callbackBody \<Rightarrow> 'n order \<Rightarrow> 'n order" where
  "paidOrder b ord =
     ord\<lparr>mpesaDetails := (mpesaDetails ord)
            \<lparr>responseCode := input_ResultCode b, responseDescription := input_ResultDesc b\<rparr>,
         paymentStatus := ''paid'', orderStatus := ''processing''\<rparr>"



definition simulated :: "string \<Rightarrow> 'n order \<Rightarrow> 'n order" where
  "simulated pm ord = ord\<lparr>paymentStatus := (if pm = ''Entrega'' then ''pending'' else ''paid'')\<rparr>"

section \<open>Stores reached from the concrete shop\<close>

text \<open>A failure-coded callback delivered once, and the same callback delivered again.\<close>

definition exFailedOnce :: "int store" where
  "exFailedOnce = resultStore (mpesaCallback True (exCallback ''INS-5'') exPending)"

definition exFailedTwice :: "int store" where
  "exFailedTwice = resultStore (mpesaCallback True (exCallback ''INS-5'') exFailedOnce)"

text \<open>The pending order after the administrator marked it shipped.\<close>

definition exShipped :: "int store" where
  "exShipped = resultStore (updateOrderStatus True 1 ''shipped'' exPending)"

text \<open>A callback whose reference no order carries.\<close>

definition exUnknownCallback :: callbackBody where
  "exUnknownCallback =
     \<lparr>input_ThirdPartyReference = Some ''PERFUME_42'',
      input_ResultCode = Some ''INS-0'', input_ResultDesc = Some ''result''\<rparr>"

text \<open>A checkout with an empty cart, and one by \<open>Emola\<close> with a phone that does not normalize.\<close>

definition exEmptyCheckout :: checkoutBody where
  "exEmptyCheckout =
     \<lparr>req_customerInfo = Some exCustomer, req_products = Some [], req_paymentMethod = Some ''Cartao''\<rparr>"


text \<open>A second request served at the same clock reading as \<open>exEnv\<close>.\<close>

definition exEnv2 :: env where
  "exEnv2 = exEnv\<lparr>newOrderId := 2, newTrackingId := ''trk2''\<rparr>"

text \<open>
  Two checkouts by \<open>Mpesa\<close> served at that same clock reading, and a failure-coded callback
  for their reference.
\<close>

definition exTwoPending :: "int store" where
  "exTwoPending = resultStore (createOrder integerDoubles exEnv2 (exCheckout ''Mpesa'') exPending)"

definition exTwoPendingFailed :: "int store" where
  "exTwoPendingFailed = resultStore (mpesaCallback True (exCallback ''INS-5'') exTwoPending)"

text \<open>A catalog with a price of \<open>2 ^ 53 - 1\<close>, and a cart of three of that product.\<close>

definition exLargeStore :: "int store" where
  "exLargeStore =
     \<lparr>productsDb = [7 \<mapsto> exProduct\<lparr>price := 9007199254740991\<rparr>], ordersDb = []\<rparr>"

definition exLargeCheckout :: checkoutBody where
  "exLargeCheckout =
     \<lparr>req_customerInfo = Some exCustomer, req_products = Some [\<lparr>productId = 7, quantity = 3\<rparr>],
      req_paymentMethod = Some ''Entrega''\<rparr>"

section \<open>Lemmas on the loops and the order collection\<close>

lemma reserveItems_db:
  "reserveItems ar items db tot details = Inr (db', tot', details') \<Longrightarrow>
   db' pid = map_option (\<lambda>p. p\<lparr>stock := stock p - sum_list (map quantity (filter (\<lambda>i. productId i = pid) items))\<rparr>) (db pid)"
proof (induction items arbitrary: db tot details)
  case Nil
  then show ?case by (simp add: option.map_ident)
next
  case (Cons item items)
  then show ?case
    by (auto split: option.splits if_splits simp: option.map_comp comp_def)
qed

lemma reserveItems_dom:
  "reserveItems ar items db tot details = Inr (db', tot', details') \<Longrightarrow>
   productId ` set items \<subseteq> dom db"
proof (induction items arbitrary: db tot details)
  case Nil
  then show ?case by simp
next
  case (Cons item items)
  then show ?case
    by (fastforce split: option.splits if_splits)
qed

lemma reserveItems_lines:
  "reserveItems ar items db tot details = Inr (db', tot', details') \<Longrightarrow>
   \<exists>new. details' = details @ new \<and>
         tot' = foldl (\<lambda>acc l. num_add ar acc (lineAmount ar l)) tot new \<and>
         list_all2 (snapshotOf db) new items"
proof (induction items arbitrary: db tot details)
  case Nil
  then show ?case by simp
next
  case (Cons item items)
  from Cons.prems obtain prd where prd: "db (productId item) = Some prd"
    and rec: "reserveItems ar items
                 (db(productId item \<mapsto> prd\<lparr>stock := stock prd - quantity item\<rparr>))
                 (num_add ar tot (num_mul ar (price prd) (num_of_int ar (quantity item))))
                 (details @ [\<lparr>li_product = productId item, li_quantity = quantity item,
                              li_price = price prd\<rparr>]) = Inr (db', tot', details')"
    by (auto split: option.splits if_splits)
  let ?db1 = "db(productId item \<mapsto> prd\<lparr>stock := stock prd - quantity item\<rparr>)"
  let ?l = "\<lparr>li_product = productId item, li_quantity = quantity item, li_price = price prd\<rparr>"
  from Cons.IH [OF rec] obtain new where
    d: "details' = (details @ [?l]) @ new" and
    t: "tot' = foldl (\<lambda>acc l. num_add ar acc (lineAmount ar l))
                (num_add ar tot (num_mul ar (price prd) (num_of_int ar (quantity item)))) new" and
    a: "list_all2 (snapshotOf ?db1) new items"
    by blast
  have same: "map_option price (?db1 k) = map_option price (db k)" for k
    using prd by simp
  have "snapshotOf ?db1 = snapshotOf db"
    unfolding snapshotOf_def same ..
  with a have a': "list_all2 (snapshotOf db) new items" by simp
  have "details' = details @ (?l # new)" using d by simp
  moreover have "tot' = foldl (\<lambda>acc l. num_add ar acc (lineAmount ar l)) tot (?l # new)"
    using t by (simp add: lineAmount_def)
  moreover have "list_all2 (snapshotOf db) (?l # new) (item # items)"
    using a' prd by (simp add: snapshotOf_def)
  ultimately show ?case by blast
qed

lemma sum_list_by_key:
  fixes g :: "'a \<Rightarrow> int"
  assumes "finite A" and "f ` set xs \<subseteq> A"
  shows "(\<Sum>a\<in>A. sum_list (map g (filter (\<lambda>x. f x = a) xs))) = sum_list (map g xs)"
  using assms(2)
proof (induction xs)
  case Nil
  then show ?case by simp
next
  case (Cons x xs)
  have "(\<Sum>a\<in>A. sum_list (map g (filter (\<lambda>y. f y = a) (x # xs)))) =
        (\<Sum>a\<in>A. (if f x = a then g x else 0) + sum_list (map g (filter (\<lambda>y. f y = a) xs)))"
    by (rule sum.cong) auto
  also have "\<dots> = (\<Sum>a\<in>A. (if f x = a then g x else 0)) + (\<Sum>a\<in>A. sum_list (map g (filter (\<lambda>y. f y = a) xs)))"
    by (simp add: sum.distrib)
  also have "(\<Sum>a\<in>A. (if f x = a then g x else 0)) = g x"
    using assms(1) Cons.prems by (simp add: sum.delta')
  finally show ?case using Cons by simp
qed

lemma restoreStock_db:
  "restoreStock ls db pid =
     map_option (\<lambda>p. p\<lparr>stock := stock p + sum_list (map li_quantity (filter (\<lambda>l. li_product l = pid) ls))\<rparr>) (db pid)"
proof (induction ls arbitrary: db)
  case Nil
  then show ?case by (simp add: option.map_ident)
next
  case (Cons l ls)
  then show ?case
    by (auto simp: incStock_def option.map_comp comp_def split: option.splits)
qed

lemma find_updateOrder:
  "find P os = Some ord \<Longrightarrow> P ord' \<Longrightarrow> oid ord' = oid ord \<Longrightarrow>
   find P (updateOrder ord' os) = Some ord'"
  unfolding updateOrder_def
  by (induction os) (auto split: if_splits)

lemma updateOrder_twice:
  "updateOrder ord (updateOrder ord os) = updateOrder ord os"
  unfolding updateOrder_def by (induction os) auto

lemma updateOrder_appended:
  "oid ord \<notin> set (map oid os) \<Longrightarrow> oid ord' = oid ord \<Longrightarrow>
   updateOrder ord' (os @ [ord]) = os @ [ord']"
  unfolding updateOrder_def by (induction os) auto

lemma updateOrder_consistent:
  "\<forall>x\<in>set os. totalConsistent ar x \<Longrightarrow> totalConsistent ar ord \<Longrightarrow>
   \<forall>x\<in>set (updateOrder ord os). totalConsistent ar x"
  unfolding updateOrder_def by auto

section \<open>Phone normalization\<close>

lemma isDigit_code: "isDigit c \<longleftrightarrow> 48 \<le> (of_char c :: nat) \<and> (of_char c :: nat) \<le> 57"
proof
  assume "isDigit c"
  then show "48 \<le> (of_char c :: nat) \<and> (of_char c :: nat) \<le> 57"
    by (auto simp: isDigit_def)
next
  assume a: "48 \<le> (of_char c :: nat) \<and> (of_char c :: nat) \<le> 57"
  define n where "n = (of_char c :: nat)"
  have c: "c = char_of n" by (simp add: n_def)
  from a have "n = 48 \<or> n = 49 \<or> n = 50 \<or> n = 51 \<or> n = 52 \<or> n = 53 \<or> n = 54 \<or> n = 55 \<or> n = 56 \<or> n = 57"
    unfolding n_def [symmetric] by arith
  then show "isDigit c"
    unfolding c isDigit_def by (elim disjE) (simp_all add: char_of_def bit_0 bit_Suc_0_iff)
qed

lemma stripNonDigits_filter: "stripNonDigits s = filter isDigit s"
  unfolding stripNonDigits_def by (rule filter_cong) (simp_all add: isDigit_code)

lemma dropLeadingZero_startsWith:
  "dropLeadingZero s = (if startsWith s ''0'' then drop 1 s else s)"
  by (cases s) (auto simp: dropLeadingZero_def startsWith_def)

lemma startsWith2: "startsWith s [a, b] = (take 2 s = [a, b])"
  by (simp add: startsWith_def numeral_2_eq_2)

lemma startsWith3: "startsWith s [a, b, c] = (take 3 s = [a, b, c])"
  by (simp add: startsWith_def numeral_3_eq_3)

lemma normalizeMpesaNumber_alt: "normalizeMpesaNumber phone =
      (let d = dropLeadingZero (stripNonDigits phone) in
       if length d = 9 \<and> (take 2 d = ''84'' \<or> take 2 d = ''85'') then Inr (''258'' @ d)
       else if length d = 12 \<and> take 3 d = ''258'' then Inr d
       else Inl (InvalidPhoneNumber phone))"
    unfolding normalizeMpesaNumber_def stripNonDigits_filter dropLeadingZero_startsWith
      startsWith2 startsWith3 Let_def by (rule refl)

lemma normalize_examples:
  "normalizeMpesaNumber ''084 123 4567'' = Inr ''258841234567''"
  "normalizeMpesaNumber ''258851234567'' = Inr ''258851234567''"
  "normalizeMpesaNumber ''12345'' = Inl (InvalidPhoneNumber ''12345'')"
  by (simp_all add: normalizeMpesaNumber_def isDigit_def startsWith_def)

text \<open>
  C5. Phone normalization strips every non-digit character, drops one leading zero,
  prefixes the country code 258 to a 9-digit result that starts with 84 or 85, returns a
  12-digit result that starts with 258 as it is, and fails with InvalidPhoneNumber on
  every other shape; the three examples of the specification evaluate as it says.
\<close>

theorem normalizeMpesaNumber_rule:
  "(let d = dropLeadingZero (stripNonDigits phone) in
      (length d = 9 \<and> (take 2 d = ''84'' \<or> take 2 d = ''85'')
         \<longrightarrow> normalizeMpesaNumber phone = Inr (''258'' @ d)) \<and>
      (length d = 12 \<and> take 3 d = ''258''
         \<longrightarrow> normalizeMpesaNumber phone = Inr d) \<and>
      (\<not> (length d = 9 \<and> (take 2 d = ''84'' \<or> take 2 d = ''85'')) \<and>
       \<not> (length d = 12 \<and> take 3 d = ''258'')
         \<longrightarrow> normalizeMpesaNumber phone = Inl (InvalidPhoneNumber phone))) \<and>
   normalizeMpesaNumber ''084 123 4567'' = Inr ''258841234567'' \<and>
   normalizeMpesaNumber ''258851234567'' = Inr ''258851234567'' \<and>
   normalizeMpesaNumber ''12345'' = Inl (InvalidPhoneNumber ''12345'')"
proof -
  define d where "d = dropLeadingZero (stripNonDigits phone)"
  have gen: "normalizeMpesaNumber phone =
       (if length d = 9 \<and> (take 2 d = ''84'' \<or> take 2 d = ''85'') then Inr (''258'' @ d)
        else if length d = 12 \<and> take 3 d = ''258'' then Inr d
        else Inl (InvalidPhoneNumber phone))"
    unfolding d_def normalizeMpesaNumber_alt Let_def by (rule refl)
  have "(length d = 9 \<and> (take 2 d = ''84'' \<or> take 2 d = ''85'')
         \<longrightarrow> normalizeMpesaNumber phone = Inr (''258'' @ d)) \<and>
      (length d = 12 \<and> take 3 d = ''258''
         \<longrightarrow> normalizeMpesaNumber phone = Inr d) \<and>
      (\<not> (length d = 9 \<and> (take 2 d = ''84'' \<or> take 2 d = ''85'')) \<and>
       \<not> (length d = 12 \<and> take 3 d = ''258'')
         \<longrightarrow> normalizeMpesaNumber phone = Inl (InvalidPhoneNumber phone))"
    unfolding gen by auto
  then show ?thesis
    unfolding Let_def d_def [symmetric] using normalize_examples by blast
qed

text \<open>The rule at three further inputs: a 12-digit number, a leading zero, two leading zeros.\<close>

theorem normalizeMpesaNumber_rule_witness:
  "normalizeMpesaNumber ''+258 84 765 4321'' = Inr ''258847654321'' \<and>
   normalizeMpesaNumber ''0851112223'' = Inr ''258851112223'' \<and>
   normalizeMpesaNumber ''00841234567'' = Inl (InvalidPhoneNumber ''00841234567'')"
proof -
  have "normalizeMpesaNumber ''+258 84 765 4321'' = Inr ''258847654321''"
    using normalizeMpesaNumber_rule [of "''+258 84 765 4321''"]
    by (simp add: stripNonDigits_filter isDigit_def dropLeadingZero_def Let_def)
  moreover have "normalizeMpesaNumber ''0851112223'' = Inr ''258851112223''"
    using normalizeMpesaNumber_rule [of "''0851112223''"]
    by (simp add: stripNonDigits_filter isDigit_def dropLeadingZero_def Let_def)
  moreover have "normalizeMpesaNumber ''00841234567'' = Inl (InvalidPhoneNumber ''00841234567'')"
    using normalizeMpesaNumber_rule [of "''00841234567''"]
    by (simp add: stripNonDigits_filter isDigit_def dropLeadingZero_def Let_def)
  ultimately show ?thesis by blast
qed

section \<open>Payment callback\<close>

lemma findOneByReference_updated:
  assumes "findOneByReference ref os = Some ord"
      and "thirdPartyReference (mpesaDetails ord') = Some ref"
      and "oid ord' = oid ord"
  shows "findOneByReference ref (updateOrder ord' os) = Some ord'"
  using assms unfolding findOneByReference_def
  by (intro find_updateOrder) auto

lemma findOneByReference_ref:
  "findOneByReference ref os = Some ord \<Longrightarrow> thirdPartyReference (mpesaDetails ord) = Some ref"
  unfolding findOneByReference_def by (auto simp: find_Some_iff)

lemma findOneByReference_mem:
  "findOneByReference ref os = Some ord \<Longrightarrow> ord \<in> set os"
  unfolding findOneByReference_def by (auto simp: find_Some_iff)

lemma callback_failed_eq:
  assumes "input_ThirdPartyReference b = Some ref" and "ref \<noteq> []"
      and "findOneByReference ref (ordersDb st) = Some ord"
      and "input_ResultCode b \<noteq> Some ''INS-0''"
  shows "mpesaCallback sk b st =
          (Response 200 CallbackProcessed,
           \<lparr>productsDb = restoreStock (products ord) (productsDb st),
            ordersDb = updateOrder (failedOrder b ord) (ordersDb st)\<rparr>,
           sendWhatsAppMessage sk (ci_phone (customerInfo ord))
             (PaymentFailedMsg (trackingId ord) (input_ResultDesc b)))"
  using assms by (simp add: mpesaCallback_def failedOrder_def Let_def)

lemma callback_paid_eq:
  assumes "input_ThirdPartyReference b = Some ref" and "ref \<noteq> []"
      and "findOneByReference ref (ordersDb st) = Some ord"
      and "input_ResultCode b = Some ''INS-0''"
  shows "mpesaCallback sk b st =
          (Response 200 CallbackProcessed,
           st\<lparr>ordersDb := updateOrder (paidOrder b ord) (ordersDb st)\<rparr>,
           sendWhatsAppMessage sk (ci_phone (customerInfo ord))
             (PaymentConfirmedMsg (trackingId ord)))"
  using assms by (simp add: mpesaCallback_def paidOrder_def Let_def)

lemma found_failedOrder:
  assumes "findOneByReference ref os = Some ord"
  shows "findOneByReference ref (updateOrder (failedOrder b ord) os) = Some (failedOrder b ord)"
proof (rule findOneByReference_updated [OF assms])
  show "thirdPartyReference (mpesaDetails (failedOrder b ord)) = Some ref"
    using findOneByReference_ref [OF assms] by (simp add: failedOrder_def)
  show "oid (failedOrder b ord) = oid ord" by (simp add: failedOrder_def)
qed

lemma found_paidOrder:
  assumes "findOneByReference ref os = Some ord"
  shows "findOneByReference ref (updateOrder (paidOrder b ord) os) = Some (paidOrder b ord)"
proof (rule findOneByReference_updated [OF assms])
  show "thirdPartyReference (mpesaDetails (paidOrder b ord)) = Some ref"
    using findOneByReference_ref [OF assms] by (simp add: paidOrder_def)
  show "oid (paidOrder b ord) = oid ord" by (simp add: paidOrder_def)
qed

lemma failedOrder_idem: "failedOrder b (failedOrder b ord) = failedOrder b ord"
  by (simp add: failedOrder_def)

lemma paidOrder_idem: "paidOrder b (paidOrder b ord) = paidOrder b ord"
  by (simp add: paidOrder_def)

lemmas ex_defs = exCheckout_def exEnv_def exStore_def exPending_def exOrder_def
      exCustomer_def exCart_def exProduct_def exAck_def exCallback_def

lemmas result_defs = resultResponse_def resultStore_def resultEffects_def statusOf_def

lemma exPending_found:
  "findOneByReference ''PERFUME_1700000000000'' (ordersDb exPending) = Some exOrder"
  by (simp add: findOneByReference_def ex_defs)

text \<open>
  A failure-coded callback on the order its reference resolves to, the first stored order
  that carries the reference: the handler answers 200, sets \<open>paymentStatus\<close> to failed and
  \<open>orderStatus\<close> to cancelled, records the result code and description in the order's
  \<open>mpesaDetails\<close>, and adds to the stock of every product the quantities of the order's
  lines that refer to it, once.
\<close>

theorem mpesaCallback_failure:
  assumes "input_ThirdPartyReference b = Some ref" and "ref \<noteq> []"
      and "findOneByReference ref (ordersDb st) = Some ord"
      and "input_ResultCode b \<noteq> Some ''INS-0''"
  shows
    "(let ord' = ord\<lparr>mpesaDetails := (mpesaDetails ord)
                       \<lparr>responseCode := input_ResultCode b,
                        responseDescription := input_ResultDesc b\<rparr>,
                     paymentStatus := ''failed'', orderStatus := ''cancelled''\<rparr>;
          res = mpesaCallback sk b st
      in resultResponse res = Response 200 CallbackProcessed \<and>
         ordersDb (resultStore res) = updateOrder ord' (ordersDb st) \<and>
         findOneByReference ref (ordersDb (resultStore res)) = Some ord' \<and>
         (\<forall>pid. productsDb (resultStore res) pid =
                map_option (\<lambda>p. p\<lparr>stock := stock p +
                   (\<Sum>l\<leftarrow>filter (\<lambda>l. li_product l = pid) (products ord). li_quantity l)\<rparr>)
                  (productsDb st pid)))"
  unfolding Let_def callback_failed_eq [OF assms] resultResponse_def resultStore_def
    failedOrder_def [symmetric]
  using found_failedOrder [OF assms(3)] by (simp add: restoreStock_db)

text \<open>
  The pending order of the concrete shop: stock 3 before the callback, 5 after it.
\<close>

theorem mpesaCallback_failure_witness:
  "resultResponse (mpesaCallback True (exCallback ''INS-5'') exPending) = Response 200 CallbackProcessed \<and>
   map (\<lambda>x. (paymentStatus x, orderStatus x, responseCode (mpesaDetails x),
             responseDescription (mpesaDetails x)))
     (ordersDb (resultStore (mpesaCallback True (exCallback ''INS-5'') exPending))) =
     [(''failed'', ''cancelled'', Some ''INS-5'', Some ''result'')] \<and>
   stockOf (productsDb exPending) 1 = 3 \<and>
   stockOf (productsDb (resultStore (mpesaCallback True (exCallback ''INS-5'') exPending))) 1 = 5"
proof -
  have h1: "input_ThirdPartyReference (exCallback ''INS-5'') = Some ''PERFUME_1700000000000''"
    and h2: "''PERFUME_1700000000000'' \<noteq> []"
    and h4: "input_ResultCode (exCallback ''INS-5'') \<noteq> Some ''INS-0''"
    by (simp_all add: exCallback_def)
  from mpesaCallback_failure [OF h1 h2 exPending_found h4, of True]
  show ?thesis
    by (simp add: Let_def stockOf_def updateOrder_def ex_defs)
qed

text \<open>
  C3, as stated, fails: the handler has no guard on \<open>paymentStatus\<close>. After one
  failure-coded callback the order is failed and the stock is back at 5; the same
  callback delivered again raises the stock to 7.
\<close>

theorem duplicate_failure_callback_restores_again:
  "map paymentStatus (ordersDb exFailedOnce) = [''failed''] \<and>
   stockOf (productsDb exStore) 1 = 5 \<and>
   stockOf (productsDb exPending) 1 = 3 \<and>
   stockOf (productsDb exFailedOnce) 1 = 5 \<and>
   stockOf (productsDb exFailedTwice) 1 = 7"
  by (simp add: exFailedTwice_def exFailedOnce_def mpesaCallback_def findOneByReference_def
      incStock_def updateOrder_def sendWhatsAppMessage_def stockOf_def Let_def ex_defs result_defs)

text \<open>
  C3, amended. Delivering the same callback twice gives the same response and leaves the
  order collection exactly as delivering it once does, and a success-coded callback
  changes no stock however often it is delivered; a failure-coded callback whose
  reference resolves restores the stock at every delivery, so two deliveries add twice
  the quantities of the order's lines.
\<close>

theorem mpesaCallback_twice:
  "(let res1 = mpesaCallback sk b st;
        res2 = mpesaCallback sk b (resultStore res1)
    in resultResponse res2 = resultResponse res1 \<and>
       ordersDb (resultStore res2) = ordersDb (resultStore res1) \<and>
       (input_ResultCode b = Some ''INS-0'' \<longrightarrow> productsDb (resultStore res2) = productsDb st) \<and>
       (\<forall>ref ord. input_ThirdPartyReference b = Some ref \<and> ref \<noteq> [] \<and>
                  findOneByReference ref (ordersDb st) = Some ord \<and>
                  input_ResultCode b \<noteq> Some ''INS-0'' \<longrightarrow>
          (\<forall>pid. productsDb (resultStore res2) pid =
                 map_option (\<lambda>p. p\<lparr>stock := stock p + 2 *
                    (\<Sum>l\<leftarrow>filter (\<lambda>l. li_product l = pid) (products ord). li_quantity l)\<rparr>)
                   (productsDb st pid))))"
proof -
  consider
      (missing) "input_ThirdPartyReference b = None \<or> input_ThirdPartyReference b = Some []"
    | (unknown) ref where "input_ThirdPartyReference b = Some ref" "ref \<noteq> []"
        "findOneByReference ref (ordersDb st) = None"
    | (paid) ref ord where "input_ThirdPartyReference b = Some ref" "ref \<noteq> []"
        "findOneByReference ref (ordersDb st) = Some ord" "input_ResultCode b = Some ''INS-0''"
    | (failed) ref ord where "input_ThirdPartyReference b = Some ref" "ref \<noteq> []"
        "findOneByReference ref (ordersDb st) = Some ord" "input_ResultCode b \<noteq> Some ''INS-0''"
    by (cases "input_ThirdPartyReference b"; cases "findOneByReference (the (input_ThirdPartyReference b)) (ordersDb st)") auto
  then show ?thesis
  proof cases
    case missing
    then have "mpesaCallback sk b st = (Response 400 MissingThirdPartyReference, st, [])"
      by (auto simp: mpesaCallback_def)
    with missing show ?thesis
      by (auto simp: Let_def resultStore_def resultResponse_def)
  next
    case unknown
    then have "mpesaCallback sk b st = (Response 404 NoBody, st, [])"
      by (simp add: mpesaCallback_def)
    with unknown show ?thesis
      by (simp add: Let_def resultStore_def resultResponse_def)
  next
    case paid
    let ?st1 = "st\<lparr>ordersDb := updateOrder (paidOrder b ord) (ordersDb st)\<rparr>"
    have r1: "resultStore (mpesaCallback sk b st) = ?st1"
      and q1: "resultResponse (mpesaCallback sk b st) = Response 200 CallbackProcessed"
      unfolding callback_paid_eq [OF paid] resultStore_def resultResponse_def by simp_all
    have f1: "findOneByReference ref (ordersDb ?st1) = Some (paidOrder b ord)"
      using found_paidOrder [OF paid(3)] by simp
    have r2: "resultStore (mpesaCallback sk b ?st1) = ?st1"
      and q2: "resultResponse (mpesaCallback sk b ?st1) = Response 200 CallbackProcessed"
      unfolding callback_paid_eq [OF paid(1,2) f1 paid(4)] resultStore_def resultResponse_def
      by (simp_all add: paidOrder_idem updateOrder_twice)
    show ?thesis
      unfolding Let_def r1 r2 q1 q2 using paid by simp
  next
    case failed
    let ?st1 = "\<lparr>productsDb = restoreStock (products ord) (productsDb st),
                 ordersDb = updateOrder (failedOrder b ord) (ordersDb st)\<rparr>"
    have r1: "resultStore (mpesaCallback sk b st) = ?st1"
      and q1: "resultResponse (mpesaCallback sk b st) = Response 200 CallbackProcessed"
      unfolding callback_failed_eq [OF failed] resultStore_def resultResponse_def by simp_all
    have f1: "findOneByReference ref (ordersDb ?st1) = Some (failedOrder b ord)"
      using found_failedOrder [OF failed(3)] by simp
    have p: "products (failedOrder b ord) = products ord"
      by (simp add: failedOrder_def)
    have r2: "resultStore (mpesaCallback sk b ?st1) =
                \<lparr>productsDb = restoreStock (products ord) (restoreStock (products ord) (productsDb st)),
                 ordersDb = updateOrder (failedOrder b ord) (ordersDb st)\<rparr>"
      and q2: "resultResponse (mpesaCallback sk b ?st1) = Response 200 CallbackProcessed"
      unfolding callback_failed_eq [OF failed(1,2) f1 failed(4)] resultStore_def resultResponse_def
      by (simp_all add: failedOrder_idem updateOrder_twice p)
    have twice: "restoreStock (products ord) (restoreStock (products ord) (productsDb st)) pid =
                 map_option (\<lambda>p. p\<lparr>stock := stock p + 2 *
                    (\<Sum>l\<leftarrow>filter (\<lambda>l. li_product l = pid) (products ord). li_quantity l)\<rparr>)
                   (productsDb st pid)" for pid
      by (simp add: restoreStock_db option.map_comp comp_def add.commute)
    show ?thesis
      unfolding Let_def r1 r2 q1 q2 using failed twice by simp
  qed
qed

text \<open>
  Two deliveries to the pending order of the concrete shop.
\<close>

theorem mpesaCallback_twice_witness:
  "ordersDb exFailedTwice = ordersDb exFailedOnce \<and>
   stockOf (productsDb exFailedTwice) 1 = 3 + 2 * 2 \<and>
   productsDb (resultStore (mpesaCallback True (exCallback ''INS-0'')
      (resultStore (mpesaCallback True (exCallback ''INS-0'') exPending)))) = productsDb exPending"
proof -
  have h: "input_ThirdPartyReference (exCallback ''INS-5'') = Some ''PERFUME_1700000000000'' \<and>
           ''PERFUME_1700000000000'' \<noteq> [] \<and>
           findOneByReference ''PERFUME_1700000000000'' (ordersDb exPending) = Some exOrder \<and>
           input_ResultCode (exCallback ''INS-5'') \<noteq> Some ''INS-0''"
    using exPending_found by (simp add: exCallback_def)
  have s: "input_ResultCode (exCallback ''INS-0'') = Some ''INS-0''"
    by (simp add: exCallback_def)
  from mpesaCallback_twice [of True "exCallback ''INS-5''" exPending]
  have a: "ordersDb exFailedTwice = ordersDb exFailedOnce"
    and b: "\<forall>pid. productsDb exFailedTwice pid =
              map_option (\<lambda>p. p\<lparr>stock := stock p + 2 *
                 (\<Sum>l\<leftarrow>filter (\<lambda>l. li_product l = pid) (products exOrder). li_quantity l)\<rparr>)
                (productsDb exPending pid)"
    unfolding Let_def exFailedTwice_def exFailedOnce_def using h by blast+
  from mpesaCallback_twice [of True "exCallback ''INS-0''" exPending] s
  have c: "productsDb (resultStore (mpesaCallback True (exCallback ''INS-0'')
      (resultStore (mpesaCallback True (exCallback ''INS-0'') exPending)))) = productsDb exPending"
    unfolding Let_def by blast
  have "stockOf (productsDb exFailedTwice) 1 = 3 + 2 * 2"
    unfolding stockOf_def b [rule_format] by (simp add: ex_defs)
  with a c show ?thesis by blast
qed

text \<open>
  C6, as stated, fails: a pending order the administrator already marked shipped is
  moved back to processing by a success-coded callback.
\<close>

theorem success_callback_resets_shipped_order:
  "map (\<lambda>x. (paymentStatus x, orderStatus x)) (ordersDb exShipped) = [(''pending'', ''shipped'')] \<and>
   resultResponse (mpesaCallback True (exCallback ''INS-0'') exShipped) = Response 200 CallbackProcessed \<and>
   map (\<lambda>x. (paymentStatus x, orderStatus x))
     (ordersDb (resultStore (mpesaCallback True (exCallback ''INS-0'') exShipped))) =
     [(''paid'', ''processing'')]"
  by (simp add: exShipped_def updateOrderStatus_def orderStatusEnum_def mpesaCallback_def
      findOneByReference_def updateOrder_def sendWhatsAppMessage_def Let_def ex_defs result_defs)

text \<open>
  C6, amended. When the reference of a callback resolves to an order and the result code
  is \<open>INS-0\<close>, the handler answers 200, sets \<open>paymentStatus\<close> to paid and \<open>orderStatus\<close>
  to processing whatever it was before, records the result code and description, and
  leaves the product collection unchanged.
\<close>

theorem mpesaCallback_success:
  assumes "input_ThirdPartyReference b = Some ref" and "ref \<noteq> []"
      and "findOneByReference ref (ordersDb st) = Some ord"
      and "input_ResultCode b = Some ''INS-0''"
  shows
    "(let ord' = ord\<lparr>mpesaDetails := (mpesaDetails ord)
                       \<lparr>responseCode := input_ResultCode b,
                        responseDescription := input_ResultDesc b\<rparr>,
                     paymentStatus := ''paid'', orderStatus := ''processing''\<rparr>;
          res = mpesaCallback sk b st
      in resultResponse res = Response 200 CallbackProcessed \<and>
         ordersDb (resultStore res) = updateOrder ord' (ordersDb st) \<and>
         findOneByReference ref (ordersDb (resultStore res)) = Some ord' \<and>
         productsDb (resultStore res) = productsDb st)"
  unfolding Let_def callback_paid_eq [OF assms] resultResponse_def resultStore_def
    paidOrder_def [symmetric]
  using found_paidOrder [OF assms(3)] by simp

text \<open>
  The success-coded callback on the pending order of the concrete shop.
\<close>

theorem mpesaCallback_success_witness:
  "resultResponse (mpesaCallback True (exCallback ''INS-0'') exPending) = Response 200 CallbackProcessed \<and>
   map (\<lambda>x. (paymentStatus x, orderStatus x, responseCode (mpesaDetails x),
             responseDescription (mpesaDetails x)))
     (ordersDb (resultStore (mpesaCallback True (exCallback ''INS-0'') exPending))) =
     [(''paid'', ''processing'', Some ''INS-0'', Some ''result'')] \<and>
   productsDb (resultStore (mpesaCallback True (exCallback ''INS-0'') exPending)) = productsDb exPending"
proof -
  have h1: "input_ThirdPartyReference (exCallback ''INS-0'') = Some ''PERFUME_1700000000000''"
    and h2: "''PERFUME_1700000000000'' \<noteq> []"
    and h4: "input_ResultCode (exCallback ''INS-0'') = Some ''INS-0''"
    by (simp_all add: exCallback_def)
  from mpesaCallback_success [OF h1 h2 exPending_found h4, of True]
  show ?thesis
    by (simp add: Let_def updateOrder_def ex_defs)
qed

text \<open>
  C7, as stated, fails: a callback whose reference matches no order is answered 404,
  not 200.
\<close>

theorem unknown_reference_answered_404:
  "findOneByReference ''PERFUME_42'' (ordersDb exPending) = None \<and>
   input_ThirdPartyReference exUnknownCallback = Some ''PERFUME_42'' \<and>
   statusOf (resultResponse (mpesaCallback True exUnknownCallback exPending)) = Some 404 \<and>
   statusOf (resultResponse (mpesaCallback True exUnknownCallback exPending)) \<noteq> Some 200"
  by (simp add: mpesaCallback_def findOneByReference_def Let_def exUnknownCallback_def ex_defs result_defs)

text \<open>
  C7, amended. A callback whose reference is present and matches no stored order is
  answered with status 404 and an empty body; neither collection is modified and
  nothing is sent.
\<close>

theorem mpesaCallback_unknown_reference:
  assumes "input_ThirdPartyReference b = Some ref" and "ref \<noteq> []"
      and "findOneByReference ref (ordersDb st) = None"
  shows "mpesaCallback sk b st = (Response 404 NoBody, st, [])"
  using assms by (simp add: mpesaCallback_def)

text \<open>
  An unknown reference at the concrete shop.
\<close>

theorem mpesaCallback_unknown_reference_witness:
  "mpesaCallback False exUnknownCallback exPending = (Response 404 NoBody, exPending, [])"
proof -
  have h1: "input_ThirdPartyReference exUnknownCallback = Some ''PERFUME_42''"
    and h2: "''PERFUME_42'' \<noteq> []"
    and h3: "findOneByReference ''PERFUME_42'' (ordersDb exPending) = None"
    by (simp_all add: findOneByReference_def exUnknownCallback_def ex_defs)
  from mpesaCallback_unknown_reference [OF h1 h2 h3] show ?thesis .
qed

section \<open>Checkout\<close>

lemma errorResponse_not_committed: "\<not> committed (errorResponse err)"
  by (cases err) (simp_all add: errorResponse_def committed_def)

lemma payOrder_fields:
  "payOrder ar e ci pm ref ord = (effs, Inr ord') \<Longrightarrow>
   oid ord' = oid ord \<and> products ord' = products ord \<and> totalAmount ord' = totalAmount ord"
  by (auto simp: payOrder_def Let_def split: if_splits sum.splits)

lemma runTransaction_committed:
  assumes "runTransaction ar e ci items pm st = (effs, Inr (st', ord'))"
  shows "\<exists>db tot details.
           reserveItems ar items (productsDb st) (num_zero ar) [] = Inr (db, tot, details) \<and>
           st' = \<lparr>productsDb = db, ordersDb = ordersDb st @ [ord']\<rparr> \<and>
           products ord' = details \<and> totalAmount ord' = tot \<and> oid ord' = newOrderId e"
proof -
  from assms obtain db tot details where
    r: "reserveItems ar items (productsDb st) (num_zero ar) [] = Inr (db, tot, details)"
    by (auto simp: runTransaction_def split: sum.splits)
  let ?ord = "newOrder e ci details tot pm (''PERFUME_'' @ decimal (now e))"
  from assms r have v: "validateOrder ?ord"
    by (auto simp: runTransaction_def Let_def split: if_splits)
  from assms r v obtain os where
    i: "insertOrder ?ord (ordersDb st) = Inr os"
    by (auto simp: runTransaction_def Let_def split: sum.splits)
  from i have fresh: "oid ?ord \<notin> set (map oid (ordersDb st))" and os: "os = ordersDb st @ [?ord]"
    by (auto simp: insertOrder_def split: if_splits)
  from assms r v i have p: "payOrder ar e ci pm (''PERFUME_'' @ decimal (now e)) ?ord = (effs, Inr ord')"
    and s: "st' = \<lparr>productsDb = db, ordersDb = updateOrder ord' os\<rparr>"
    by (auto simp: runTransaction_def Let_def split: sum.splits prod.splits)
  note f = payOrder_fields [OF p]
  have "updateOrder ord' os = ordersDb st @ [ord']"
    unfolding os using fresh f by (intro updateOrder_appended) auto
  with s f r show ?thesis
    by (auto simp: newOrder_def)
qed

lemma createOrder_aborted:
  "createOrder ar e b st = (r, st', effs) \<Longrightarrow> \<not> committed r \<Longrightarrow> st' = st"
  by (auto simp: createOrder_def Let_def committed_def
      split: option.splits if_splits prod.splits sum.splits)

lemma createOrder_committed:
  "createOrder ar e b st = (r, st', effs) \<Longrightarrow> committed r \<Longrightarrow>
   \<exists>ci items pm effs0 ord'.
     req_customerInfo b = Some ci \<and> req_products b = Some items \<and> req_paymentMethod b = Some pm \<and>
     runTransaction ar e ci items pm st = (effs0, Inr (st', ord'))"
  using errorResponse_not_committed
  by (auto simp: createOrder_def Let_def committed_def
      split: option.splits if_splits prod.splits sum.splits)

lemma createOrder_simulated_eq:
  assumes "req_customerInfo b = Some ci" and "req_products b = Some items"
      and "req_paymentMethod b = Some pm"
      and "pm \<noteq> ''Mpesa''" and "pm \<in> set paymentMethodEnum"
      and "reserveItems ar items (productsDb st) (num_zero ar) [] = Inr (db, tot, details)"
      and "ci_name ci \<noteq> []" and "ci_phone ci \<noteq> []" and "ci_address ci \<noteq> []"
      and "newOrderId e \<notin> set (map oid (ordersDb st))"
  shows "createOrder ar e b st =
           (Response 201 (OrderCreated (newOrderId e) (newTrackingId e) None),
            \<lparr>productsDb = db,
             ordersDb = ordersDb st @
               [simulated pm (newOrder e ci details tot pm (''PERFUME_'' @ decimal (now e)))]\<rparr>,
            sendWhatsAppMessage (sock e) (ci_phone ci)
              (OrderCreatedMsg (ci_name ci) (newTrackingId e) tot))"
proof -
  let ?ord = "newOrder e ci details tot pm (''PERFUME_'' @ decimal (now e))"
  have ne: "pm \<noteq> []" using assms(5) by (auto simp: paymentMethodEnum_def)
  have v: "validateOrder ?ord"
    using assms by (simp add: validateOrder_def newOrder_def paymentStatusEnum_def orderStatusEnum_def)
  have i: "insertOrder ?ord (ordersDb st) = Inr (ordersDb st @ [?ord])"
    using assms(10) by (simp add: insertOrder_def newOrder_def)
  have p: "payOrder ar e ci pm (''PERFUME_'' @ decimal (now e)) ?ord = ([], Inr (simulated pm ?ord))"
    using assms(4) by (simp add: payOrder_def simulated_def)
  have u: "updateOrder (simulated pm ?ord) (ordersDb st @ [?ord]) = ordersDb st @ [simulated pm ?ord]"
    using assms(10) by (intro updateOrder_appended) (simp_all add: simulated_def newOrder_def)
  have t: "runTransaction ar e ci items pm st =
             ([], Inr (\<lparr>productsDb = db, ordersDb = ordersDb st @ [simulated pm ?ord]\<rparr>, simulated pm ?ord))"
    unfolding runTransaction_def assms(6) using v i p u by (simp add: Let_def)
  show ?thesis
    unfolding createOrder_def using assms(1-4) ne t
    by (simp add: Let_def simulated_def newOrder_def)
qed




text \<open>
  The concrete arithmetic at the numbers of the examples: exact below \<open>2 ^ 53\<close>, rounded
  above, and printed as \<open>toString\<close> prints a double.
\<close>

lemma integerDoubles_simps:
  "num_zero integerDoubles = 0"
  "num_add integerDoubles a b = roundDouble (a + b)"
  "num_mul integerDoubles a b = roundDouble (a * b)"
  "num_of_int integerDoubles = roundDouble"
  "num_nonneg integerDoubles a = (0 \<le> a)"
  "num_toString integerDoubles = numberToString"
  by (simp_all add: integerDoubles_def)

lemma roundDouble_exact: "- (2 ^ 53) < i \<Longrightarrow> i < 2 ^ 53 \<Longrightarrow> roundDouble i = i"
  by (auto simp: roundDouble_def roundNat_def)

lemma numberToString_shop: "numberToString 200 = ''200''"
  by (simp add: numberToString_def positiveToString_def roundNat_def decimal.simps digitChar_def
      Let_def)

lemma roundDouble_large:
  "roundDouble 27021597764222973 = 27021597764222972"
  "roundDouble 27021597764222972 = 27021597764222972"
  by (simp_all add: roundDouble_def roundNat_def bitLength.simps Let_def)

lemma integerDoubles_examples:
  "roundDouble (9007199254740991 * 3) = 27021597764222972"
  "numberToString (2 ^ 60) = ''1152921504606847000''"
  "numberToString (10 ^ 21) = ''1e+21''"
  by (simp_all add: numberToString_def positiveToString_def roundDouble_def roundNat_def
      bitLength.simps decimal.simps digitChar_def Let_def)

lemmas checkout_defs = createOrder_def runTransaction_def newOrder_def
      validateOrder_def paymentMethodEnum_def paymentStatusEnum_def orderStatusEnum_def
      insertOrder_def updateOrder_def payOrder_def normalizeMpesaNumber_def isDigit_def
      startsWith_def decimal.simps digitChar_def sendWhatsAppMessage_def Let_def
      integerDoubles_simps roundDouble_exact numberToString_shop validateProduct_def
      productTypeEnum_def


lemma exCheckout_Entrega:
  "createOrder integerDoubles exEnv (exCheckout ''Entrega'') exStore =
     (Response 201 (OrderCreated 1 ''trk1'' None),
      \<lparr>productsDb = [1 \<mapsto> exProduct\<lparr>stock := 3\<rparr>],
       ordersDb = [exOrder\<lparr>paymentMethod := ''Entrega'',
                     mpesaDetails := (mpesaDetails exOrder)
                       \<lparr>conversationID := None, responseCode := None, responseDescription := None\<rparr>\<rparr>]\<rparr>,
      [WhatsApp ''841234567@s.whatsapp.net'' (OrderCreatedMsg ''Ana'' ''trk1'' 200)])"
  by (simp add: checkout_defs ex_defs)

lemma exLargeCheckout_result:
  "createOrder integerDoubles exEnv exLargeCheckout exLargeStore =
     (Response 201 (OrderCreated 1 ''trk1'' None),
      \<lparr>productsDb = [7 \<mapsto> exProduct\<lparr>price := 9007199254740991, stock := 2\<rparr>],
       ordersDb = [exOrder\<lparr>products := [\<lparr>li_product = 7, li_quantity = 3,
                                             li_price = 9007199254740991\<rparr>],
                     totalAmount := 27021597764222972,
                     paymentMethod := ''Entrega'',
                     mpesaDetails := (mpesaDetails exOrder)
                       \<lparr>conversationID := None, responseCode := None, responseDescription := None\<rparr>\<rparr>]\<rparr>,
      [WhatsApp ''841234567@s.whatsapp.net'' (OrderCreatedMsg ''Ana'' ''trk1'' 27021597764222972)])"
  by (simp add: checkout_defs ex_defs exLargeCheckout_def exLargeStore_def roundDouble_large)

text \<open>
  Atomicity of the transaction: a checkout that is not committed returns the store of the
  request (lemma \<open>createOrder_aborted\<close> above), and a committed one has decremented,
  summed over the catalog, exactly the quantities of the cart.
\<close>

lemma createOrder_stock_sum:
  assumes "createOrder ar e b st = (r, st', effs)" and "committed r"
      and "req_products b = Some items" and "finite (dom (productsDb st))"
  shows "(\<Sum>pid\<in>dom (productsDb st). stockOf (productsDb st) pid - stockOf (productsDb st') pid) =
         sum_list (map quantity items)"
proof -
  from createOrder_committed [OF assms(1,2)] assms(3) obtain ci pm effs0 ord' where
    t: "runTransaction ar e ci items pm st = (effs0, Inr (st', ord'))"
    by auto
  from runTransaction_committed [OF t] obtain db tot details where
    r: "reserveItems ar items (productsDb st) (num_zero ar) [] = Inr (db, tot, details)" and
    s: "productsDb st' = db"
    by auto
  have "stockOf (productsDb st) pid - stockOf db pid =
        sum_list (map quantity (filter (\<lambda>i. productId i = pid) items))" if "pid \<in> dom (productsDb st)" for pid
    using that unfolding stockOf_def reserveItems_db [OF r, of pid] by auto
  then have "(\<Sum>pid\<in>dom (productsDb st). stockOf (productsDb st) pid - stockOf db pid) =
        (\<Sum>pid\<in>dom (productsDb st). sum_list (map quantity (filter (\<lambda>i. productId i = pid) items)))"
    by (intro sum.cong) auto
  also have "\<dots> = sum_list (map quantity items)"
    by (rule sum_list_by_key [OF assms(4) reserveItems_dom [OF r]])
  finally show ?thesis unfolding s .
qed

text \<open>
  C1. The claim holds of every failure before the commit, and fails on the code after it:
  a checkout by \<open>Mpesa\<close> that passes every step commits the decremented stock and the
  order, and then fails building the 201 answer, which reads the block-scoped constant
  \<open>mpesaResponse\<close> outside its block. The request fails and both collections have
  changed.
\<close>

theorem mpesa_checkout_fails_after_commit:
  "resultResponse (createOrder integerDoubles exEnv (exCheckout ''Mpesa'') exStore) =
     PostCommitFailure (ReferenceError ''mpesaResponse'') \<and>
   statusOf (resultResponse (createOrder integerDoubles exEnv (exCheckout ''Mpesa'') exStore)) \<noteq> Some 201 \<and>
   resultStore (createOrder integerDoubles exEnv (exCheckout ''Mpesa'') exStore) = exPending \<and>
   stockOf (productsDb exStore) 1 = 5 \<and> stockOf (productsDb exPending) 1 = 3 \<and>
   ordersDb exStore = [] \<and> ordersDb exPending = [exOrder]"
  by (simp add: checkout_defs ex_defs result_defs stockOf_def)




text \<open>
  The reference of a committed order is a function of the clock reading alone.
\<close>

lemma payOrder_reference:
  "payOrder ar e ci pm ref ord = (effs, Inr ord') \<Longrightarrow>
   thirdPartyReference (mpesaDetails ord') = thirdPartyReference (mpesaDetails ord)"
  by (auto simp: payOrder_def Let_def split: if_splits sum.splits)

lemma createOrder_reference:
  assumes "createOrder ar e b st = (r, st', effs)" and "committed r"
  shows "\<exists>ord. ordersDb st' = ordersDb st @ [ord] \<and>
           thirdPartyReference (mpesaDetails ord) = Some (''PERFUME_'' @ decimal (now e))"
proof -
  from createOrder_committed [OF assms] obtain ci items pm effs0 ord' where
    t: "runTransaction ar e ci items pm st = (effs0, Inr (st', ord'))"
    by blast
  from runTransaction_committed [OF t] obtain db tot details where
    r: "reserveItems ar items (productsDb st) (num_zero ar) [] = Inr (db, tot, details)" and
    s: "ordersDb st' = ordersDb st @ [ord']"
    by auto
  let ?ord = "newOrder e ci details tot pm (''PERFUME_'' @ decimal (now e))"
  from t r have "payOrder ar e ci pm (''PERFUME_'' @ decimal (now e)) ?ord = (effs0, Inr ord')"
    by (auto simp: runTransaction_def Let_def split: sum.splits prod.splits if_splits)
  then have "thirdPartyReference (mpesaDetails ord') = thirdPartyReference (mpesaDetails ?ord)"
    by (rule payOrder_reference)
  with s show ?thesis
    by (simp add: newOrder_def)
qed

text \<open>
  C8 fails on the code: two checkouts served at the same millisecond both persist an
  order, and the two orders carry the same \<open>thirdPartyReference\<close>.
\<close>

theorem same_millisecond_same_reference:
  "now exEnv2 = now exEnv \<and>
   resultResponse (createOrder integerDoubles exEnv (exCheckout ''Cartao'') exStore) =
     Response 201 (OrderCreated 1 ''trk1'' None) \<and>
   resultResponse (createOrder integerDoubles exEnv2 (exCheckout ''Cartao'')
       (resultStore (createOrder integerDoubles exEnv (exCheckout ''Cartao'') exStore))) =
     Response 201 (OrderCreated 2 ''trk2'' None) \<and>
   map (\<lambda>x. (oid x, thirdPartyReference (mpesaDetails x)))
     (ordersDb (resultStore (createOrder integerDoubles exEnv2 (exCheckout ''Cartao'')
        (resultStore (createOrder integerDoubles exEnv (exCheckout ''Cartao'') exStore))))) =
     [(1, Some ''PERFUME_1700000000000''), (2, Some ''PERFUME_1700000000000'')]"
  by (simp add: checkout_defs ex_defs exEnv2_def result_defs)

text \<open>
  C9. The order a committed checkout appends has \<open>totalAmount\<close> equal to the sum, in the
  Number arithmetic and in the order of the lines, of price times quantity over its line
  items, and each line item is the cart line with the catalog price of the request's
  store; the checkout, the payment callback and the administrative status update
  preserve the equality for every stored order. Nothing is assumed of the arithmetic,
  so the statement holds of the doubles with their rounding.
\<close>

theorem totalAmount_invariant:
  "(\<forall>r st' effs items.
      createOrder ar e b st = (r, st', effs) \<and> committed r \<and> req_products b = Some items \<longrightarrow>
      (\<exists>ord. ordersDb st' = ordersDb st @ [ord] \<and> totalConsistent ar ord \<and>
             list_all2 (snapshotOf (productsDb st)) (products ord) items)) \<and>
   ((\<forall>x\<in>set (ordersDb st). totalConsistent ar x) \<longrightarrow>
      (\<forall>x\<in>set (ordersDb (resultStore (createOrder ar e b st))). totalConsistent ar x) \<and>
      (\<forall>x\<in>set (ordersDb (resultStore (mpesaCallback sk cb st))). totalConsistent ar x) \<and>
      (\<forall>x\<in>set (ordersDb (resultStore (updateOrderStatus sk ident newStatus st))). totalConsistent ar x))"
proof -
  have new: "\<exists>ord. ordersDb st' = ordersDb st @ [ord] \<and> totalConsistent ar ord \<and>
             list_all2 (snapshotOf (productsDb st)) (products ord) items"
    if c: "createOrder ar e b st = (r, st', effs)" "committed r" "req_products b = Some items"
    for r st' effs items
  proof -
    from createOrder_committed [OF c(1,2)] c(3) obtain ci pm effs0 ord' where
      t: "runTransaction ar e ci items pm st = (effs0, Inr (st', ord'))"
      by auto
    from runTransaction_committed [OF t] obtain db tot details where
      r: "reserveItems ar items (productsDb st) (num_zero ar) [] = Inr (db, tot, details)" and
      s: "ordersDb st' = ordersDb st @ [ord']" and
      f: "products ord' = details" "totalAmount ord' = tot"
      by auto
    from reserveItems_lines [OF r] have
      "tot = foldl (\<lambda>acc l. num_add ar acc (lineAmount ar l)) (num_zero ar) details"
      "list_all2 (snapshotOf (productsDb st)) details items"
      by auto
    then have
      "tot = numSum ar (map (lineAmount ar) details)"
      "list_all2 (snapshotOf (productsDb st)) details items"
      by (simp_all add: numSum_def foldl_map)
    with s f show ?thesis
      by (auto simp: totalConsistent_def)
  qed
  have keep_checkout: "\<forall>x\<in>set (ordersDb (resultStore (createOrder ar e b st))). totalConsistent ar x"
    if inv: "\<forall>x\<in>set (ordersDb st). totalConsistent ar x"
  proof -
    obtain r st' effs where c: "createOrder ar e b st = (r, st', effs)"
      by (cases "createOrder ar e b st") auto
    show ?thesis
    proof (cases "committed r")
      case False
      from createOrder_aborted [OF c False] c inv show ?thesis
        by (simp add: resultStore_def)
    next
      case True
      from createOrder_committed [OF c True] obtain items where "req_products b = Some items"
        by auto
      from new [OF c True this] c inv show ?thesis
        by (auto simp: resultStore_def)
    qed
  qed
  have keep_callback: "\<forall>x\<in>set (ordersDb (resultStore (mpesaCallback sk cb st))). totalConsistent ar x"
    if inv: "\<forall>x\<in>set (ordersDb st). totalConsistent ar x"
  proof (cases "\<exists>ref ord. input_ThirdPartyReference cb = Some ref \<and> ref \<noteq> [] \<and>
                   findOneByReference ref (ordersDb st) = Some ord")
    case False
    then have "resultStore (mpesaCallback sk cb st) = st"
      by (auto simp: mpesaCallback_def resultStore_def split: option.splits)
    with inv show ?thesis by simp
  next
    case True
    then obtain ref ord where h: "input_ThirdPartyReference cb = Some ref" "ref \<noteq> []"
        "findOneByReference ref (ordersDb st) = Some ord"
      by blast
    from inv findOneByReference_mem [OF h(3)] have "totalConsistent ar ord" by blast
    then have c: "totalConsistent ar (paidOrder cb ord)" "totalConsistent ar (failedOrder cb ord)"
      by (simp_all add: totalConsistent_def paidOrder_def failedOrder_def)
    show ?thesis
    proof (cases "input_ResultCode cb = Some ''INS-0''")
      case True
      show ?thesis
        unfolding callback_paid_eq [OF h True] resultStore_def
        using updateOrder_consistent [OF inv c(1)] by simp
    next
      case False
      show ?thesis
        unfolding callback_failed_eq [OF h False] resultStore_def
        using updateOrder_consistent [OF inv c(2)] by simp
    qed
  qed
  have keep_update: "\<forall>x\<in>set (ordersDb (resultStore (updateOrderStatus sk ident newStatus st))). totalConsistent ar x"
    if inv: "\<forall>x\<in>set (ordersDb st). totalConsistent ar x"
  proof (cases "find (\<lambda>x. oid x = ident) (ordersDb st)")
    case None
    with inv show ?thesis
      by (simp add: updateOrderStatus_def resultStore_def)
  next
    case (Some ord)
    then have "ord \<in> set (ordersDb st)"
      by (auto simp: find_Some_iff)
    with inv have "totalConsistent ar (ord\<lparr>orderStatus := newStatus\<rparr>)"
      by (auto simp: totalConsistent_def)
    from updateOrder_consistent [OF inv this] inv Some show ?thesis
      by (simp add: updateOrderStatus_def resultStore_def Let_def)
  qed
  from new keep_checkout keep_callback keep_update show ?thesis
    by blast
qed

text \<open>
  Three units at the price \<open>2 ^ 53 - 1\<close>: the stored total is the rounded product
  27021597764222972, and it is the sum of the line amounts in the arithmetic of the
  doubles; then the three operations on the pending store of the concrete shop.
\<close>

theorem totalAmount_invariant_witness:
  "(\<exists>ord. ordersDb (resultStore (createOrder integerDoubles exEnv exLargeCheckout exLargeStore)) = [ord] \<and>
      totalAmount ord = 27021597764222972 \<and> totalConsistent integerDoubles ord \<and>
      list_all2 (snapshotOf (productsDb exLargeStore)) (products ord) [\<lparr>productId = 7, quantity = 3\<rparr>]) \<and>
   list_all (totalConsistent integerDoubles)
     (ordersDb (resultStore (createOrder integerDoubles exEnv2 (exCheckout ''Entrega'') exPending))) \<and>
   list_all (totalConsistent integerDoubles)
     (ordersDb (resultStore (mpesaCallback True (exCallback ''INS-5'') exPending))) \<and>
   list_all (totalConsistent integerDoubles)
     (ordersDb (resultStore (updateOrderStatus True 1 ''shipped'' exPending)))"
proof -
  have inv: "\<forall>x\<in>set (ordersDb exPending). totalConsistent integerDoubles x"
    by (simp add: exPending_def exOrder_def totalConsistent_def numSum_def lineAmount_def
        integerDoubles_simps roundDouble_exact)
  have c: "committed (Response 201 (OrderCreated 1 ''trk1'' None) :: int response)"
    by (simp add: committed_def)
  have p: "req_products exLargeCheckout = Some [\<lparr>productId = 7, quantity = 3\<rparr>]"
    by (simp add: exLargeCheckout_def)
  from totalAmount_invariant [of integerDoubles exEnv exLargeCheckout exLargeStore] exLargeCheckout_result c p
  obtain ord where o:
    "ordersDb (resultStore (createOrder integerDoubles exEnv exLargeCheckout exLargeStore)) =
       ordersDb exLargeStore @ [ord]"
    "totalConsistent integerDoubles ord"
    "list_all2 (snapshotOf (productsDb exLargeStore)) (products ord) [\<lparr>productId = 7, quantity = 3\<rparr>]"
    unfolding resultStore_def by (metis fst_conv snd_conv)
  from o(1) have "totalAmount ord = 27021597764222972"
    "ordersDb (resultStore (createOrder integerDoubles exEnv exLargeCheckout exLargeStore)) = [ord]"
    unfolding exLargeCheckout_result resultStore_def by (auto simp: exLargeStore_def)
  with o have a: "\<exists>ord. ordersDb (resultStore (createOrder integerDoubles exEnv exLargeCheckout exLargeStore)) = [ord] \<and>
      totalAmount ord = 27021597764222972 \<and> totalConsistent integerDoubles ord \<and>
      list_all2 (snapshotOf (productsDb exLargeStore)) (products ord) [\<lparr>productId = 7, quantity = 3\<rparr>]"
    by blast
  from totalAmount_invariant [of integerDoubles exEnv2 "exCheckout ''Entrega''" exPending True "exCallback ''INS-5''" 1 "''shipped''"] inv
  have b: "list_all (totalConsistent integerDoubles)
     (ordersDb (resultStore (createOrder integerDoubles exEnv2 (exCheckout ''Entrega'') exPending))) \<and>
   list_all (totalConsistent integerDoubles)
     (ordersDb (resultStore (mpesaCallback True (exCallback ''INS-5'') exPending))) \<and>
   list_all (totalConsistent integerDoubles)
     (ordersDb (resultStore (updateOrderStatus True 1 ''shipped'' exPending)))"
    unfolding list_all_iff by blast
  from a b show ?thesis by blast
qed

text \<open>
  C10. A checkout whose product list is present and empty, with the three customer fields
  filled in and the method \<open>Cartao\<close> or \<open>Entrega\<close>, is not rejected: it is answered 201
  and an order with no line items and \<open>totalAmount\<close> 0 is appended to the order
  collection; the catalog is unchanged.
\<close>

theorem createOrder_empty_cart:
  assumes "req_customerInfo b = Some ci" and "req_products b = Some []"
      and "req_paymentMethod b = Some pm" and "pm = ''Cartao'' \<or> pm = ''Entrega''"
      and "ci_name ci \<noteq> []" and "ci_phone ci \<noteq> []" and "ci_address ci \<noteq> []"
      and "newOrderId e \<notin> set (map oid (ordersDb st))"
  shows "\<exists>ord. createOrder ar e b st =
           (Response 201 (OrderCreated (newOrderId e) (newTrackingId e) None),
            st\<lparr>ordersDb := ordersDb st @ [ord]\<rparr>,
            sendWhatsAppMessage (sock e) (ci_phone ci)
              (OrderCreatedMsg (ci_name ci) (newTrackingId e) (num_zero ar))) \<and>
          oid ord = newOrderId e \<and> customerInfo ord = ci \<and> paymentMethod ord = pm \<and>
          products ord = [] \<and> totalAmount ord = num_zero ar"
proof -
  have other: "pm \<noteq> ''Mpesa''" and enum: "pm \<in> set paymentMethodEnum"
    using assms(4) by (auto simp: paymentMethodEnum_def)
  have r: "reserveItems ar [] (productsDb st) (num_zero ar) [] = Inr (productsDb st, num_zero ar, [])"
    by simp
  have s: "\<lparr>productsDb = productsDb st, ordersDb = os\<rparr> = st\<lparr>ordersDb := os\<rparr>" for os
    by simp
  show ?thesis
    unfolding createOrder_simulated_eq [OF assms(1-3) other enum r assms(5-8)] s
    by (intro exI [of _ "simulated pm (newOrder e ci [] (num_zero ar) pm (''PERFUME_'' @ decimal (now e)))"])
       (simp add: simulated_def newOrder_def)
qed

text \<open>
  The empty cart at the concrete shop.
\<close>

theorem createOrder_empty_cart_witness:
  "\<exists>ord. createOrder integerDoubles exEnv exEmptyCheckout exStore =
           (Response 201 (OrderCreated 1 ''trk1'' None),
            exStore\<lparr>ordersDb := [ord]\<rparr>,
            [WhatsApp ''841234567@s.whatsapp.net'' (OrderCreatedMsg ''Ana'' ''trk1'' 0)]) \<and>
          products ord = [] \<and> totalAmount ord = 0 \<and> paymentMethod ord = ''Cartao''"
proof -
  have h: "req_customerInfo exEmptyCheckout = Some exCustomer"
    "req_products exEmptyCheckout = Some []"
    "req_paymentMethod exEmptyCheckout = Some ''Cartao''"
    by (simp_all add: exEmptyCheckout_def)
  have p: "''Cartao'' = ''Cartao'' \<or> ''Cartao'' = ''Entrega''" by simp
  have c: "ci_name exCustomer \<noteq> []" "ci_phone exCustomer \<noteq> []" "ci_address exCustomer \<noteq> []"
    by (simp_all add: exCustomer_def)
  have f: "newOrderId exEnv \<notin> set (map oid (ordersDb exStore))"
    by (simp add: exStore_def)
  from createOrder_empty_cart [OF h p c f, of integerDoubles] obtain ord where
    "createOrder integerDoubles exEnv exEmptyCheckout exStore =
           (Response 201 (OrderCreated (newOrderId exEnv) (newTrackingId exEnv) None),
            exStore\<lparr>ordersDb := ordersDb exStore @ [ord]\<rparr>,
            sendWhatsAppMessage (sock exEnv) (ci_phone exCustomer)
              (OrderCreatedMsg (ci_name exCustomer) (newTrackingId exEnv) (num_zero integerDoubles)))"
    "products ord = []" "totalAmount ord = num_zero integerDoubles"
    "paymentMethod ord = ''Cartao''"
    by blast
  then show ?thesis
    by (intro exI [of _ ord])
       (simp add: exEnv_def exCustomer_def exStore_def sendWhatsAppMessage_def isDigit_def
         integerDoubles_simps)
qed

section \<open>Callbacks on orders that share a reference\<close>

lemma exTwoPending_result:
  "exTwoPending =
     \<lparr>productsDb = [1 \<mapsto> exProduct\<lparr>stock := 1\<rparr>],
      ordersDb = [exOrder, exOrder\<lparr>oid := 2, trackingId := ''trk2''\<rparr>]\<rparr>"
  by (simp add: exTwoPending_def checkout_defs ex_defs exEnv2_def result_defs)

text \<open>
  C2 fails on the code: two checkouts by \<open>Mpesa\<close> served at the same millisecond leave
  two pending orders with the same reference. A failure-coded callback for that
  reference is answered 200 and reaches the first order only: the second order stays
  pending and processing, its two units stay reserved (stock 1, then 3, never 5), and a
  further delivery changes nothing of the second order either.
\<close>

theorem failure_callback_misses_second_order:
  "map (\<lambda>x. (oid x, thirdPartyReference (mpesaDetails x), paymentMethod x, paymentStatus x,
             orderStatus x)) (ordersDb exTwoPending) =
     [(1, Some ''PERFUME_1700000000000'', ''Mpesa'', ''pending'', ''processing''),
      (2, Some ''PERFUME_1700000000000'', ''Mpesa'', ''pending'', ''processing'')] \<and>
   stockOf (productsDb exTwoPending) 1 = 1 \<and>
   resultResponse (mpesaCallback True (exCallback ''INS-5'') exTwoPending) =
     Response 200 CallbackProcessed \<and>
   map (\<lambda>x. (oid x, paymentStatus x, orderStatus x)) (ordersDb exTwoPendingFailed) =
     [(1, ''failed'', ''cancelled''), (2, ''pending'', ''processing'')] \<and>
   stockOf (productsDb exTwoPendingFailed) 1 = 3 \<and>
   map (\<lambda>x. (oid x, paymentStatus x, orderStatus x))
     (ordersDb (resultStore (mpesaCallback True (exCallback ''INS-5'') exTwoPendingFailed))) =
     [(1, ''failed'', ''cancelled''), (2, ''pending'', ''processing'')]"
  unfolding exTwoPendingFailed_def exTwoPending_result
  by (simp add: mpesaCallback_def findOneByReference_def incStock_def updateOrder_def
      sendWhatsAppMessage_def stockOf_def Let_def ex_defs result_defs)

end
